theory Spec2Isabelle
  imports Main "HOL-Library.Word" "HOL-Library.Sublist"
begin

section \<open>Python values, dictionaries and exceptions\<close>

text \<open>
  The agents exchange plain Python dictionaries whose values are dynamically typed, so the
  messages are modelled over a datatype of Python values. A dictionary is an association list
  (its keys are always string literals in this code base); the first binding of a key is the one a
  lookup finds. A float is carried as its 64 bits; no arithmetic on floats is modelled.
\<close>

datatype pyfloat = Float64 "64 word"

datatype pyval =
    PNone
  | PBool bool
  | PInt int
  | PFloat pyfloat
  | PStr string
  | PList "pyval list"
  | PDict "(string \<times> pyval) list"

type_synonym pydict = "(string \<times> pyval) list"

text \<open>
  An exception is a value carrying its description. \<open>str(e)\<close> of a \<open>KeyError\<close> is the
  \<open>repr\<close> of the missing key, which for the identifier-like keys used here is the key between
  single quotes; every other exception prints its message.
\<close>

datatype exn =
    KeyError string
  | TypeError string
  | AttributeError string
  | ValueError string
  | OverflowError string
  | OtherError string

fun str_exn :: "exn \<Rightarrow> string" where
  "str_exn (KeyError k) = [CHR 0x27] @ k @ [CHR 0x27]"
| "str_exn (TypeError m) = m"
| "str_exn (AttributeError m) = m"
| "str_exn (ValueError m) = m"
| "str_exn (OverflowError m) = m"
| "str_exn (OtherError m) = m"

text \<open>
  What the interpreter itself prints is not part of the repository: the text of \<open>str(v)\<close> for
  numbers and containers, and the messages of the \<open>AttributeError\<close> and \<open>TypeError\<close> it
  raises. They are supplied by a record of the interpreter's behaviour.
\<close>

record runtime =
  format_other :: "pyval \<Rightarrow> string"
  no_attribute :: "pyval \<Rightarrow> string \<Rightarrow> string"
  not_subscriptable :: "pyval \<Rightarrow> string"
  no_len :: "pyval \<Rightarrow> string"
  bad_format :: "pyval \<Rightarrow> string"

fun py_str :: "runtime \<Rightarrow> pyval \<Rightarrow> string" where
  "py_str rt (PStr s) = s"
| "py_str rt PNone = ''None''"
| "py_str rt (PBool b) = (if b then ''True'' else ''False'')"
| "py_str rt v = format_other rt v"

text \<open>\<open>d.get(k, default)\<close> on a dictionary.\<close>

definition dict_get :: "pydict \<Rightarrow> string \<Rightarrow> pyval \<Rightarrow> pyval" where
  "dict_get d k dflt = (case map_of d k of None \<Rightarrow> dflt | Some v \<Rightarrow> v)"

text \<open>\<open>obj.get(k, default)\<close> on any value: only a dictionary has the method.\<close>

fun py_get :: "runtime \<Rightarrow> pyval \<Rightarrow> string \<Rightarrow> pyval \<Rightarrow> exn + pyval" where
  "py_get rt (PDict d) k dflt = Inr (dict_get d k dflt)"
| "py_get rt v k dflt = Inl (AttributeError (no_attribute rt v ''get''))"

text \<open>\<open>d[k]\<close> on a dictionary, and \<open>obj[k]\<close> on any value, for a string key.\<close>

definition dict_item :: "pydict \<Rightarrow> string \<Rightarrow> exn + pyval" where
  "dict_item d k = (case map_of d k of None \<Rightarrow> Inl (KeyError k) | Some v \<Rightarrow> Inr v)"

fun py_item :: "runtime \<Rightarrow> pyval \<Rightarrow> string \<Rightarrow> exn + pyval" where
  "py_item rt (PDict d) k = dict_item d k"
| "py_item rt v k = Inl (TypeError (not_subscriptable rt v))"

text \<open>
  \<open>len(obj)\<close>: strings, lists and dictionaries have a length, the other values raise.
  The formatting \<open>f"{obj:.1f}"\<close> succeeds on numbers (a \<open>bool\<close> is an \<open>int\<close>),
  raises \<open>ValueError\<close> on a string and \<open>TypeError\<close> on everything else. An \<open>int\<close> is
  converted to a float first, which raises \<open>OverflowError\<close> when the int rounds to a value
  beyond the largest double, that is from \<open>2^1024 - 2^970\<close> on in absolute value. The
  formatted text only goes to the console, so only whether it raises is recorded.
\<close>

fun py_len :: "runtime \<Rightarrow> pyval \<Rightarrow> exn + nat" where
  "py_len rt (PStr s) = Inr (length s)"
| "py_len rt (PList xs) = Inr (length xs)"
| "py_len rt (PDict d) = Inr (card (fst ` set d))"
| "py_len rt v = Inl (TypeError (no_len rt v))"

fun format_1f :: "runtime \<Rightarrow> pyval \<Rightarrow> exn + unit" where
  "format_1f rt (PInt i) =
     (if \<bar>i\<bar> < 2 ^ 1024 - 2 ^ 970 then Inr ()
      else Inl (OverflowError ''int too large to convert to float''))"
| "format_1f rt (PFloat x) = Inr ()"
| "format_1f rt (PBool b) = Inr ()"
| "format_1f rt (PStr s) = Inl (ValueError (bad_format rt (PStr s)))"
| "format_1f rt v = Inl (TypeError (bad_format rt v))"

text \<open>Sequencing of computations that may raise.\<close>

definition and_then :: "exn + 'a \<Rightarrow> ('a \<Rightarrow> exn + 'b) \<Rightarrow> exn + 'b" where
  "and_then r f = (case r of Inl e \<Rightarrow> Inl e | Inr x \<Rightarrow> f x)"

section \<open>Message envelopes (mcp\_server/base\_server.py)\<close>

text \<open>
  Every envelope is stamped with \<open>str(uuid.uuid4())\<close> and \<open>datetime.now().isoformat()\<close>.
  The two strings drawn at one construction are an argument of the constructing function.
\<close>

type_synonym stamp = "string \<times> string"

text \<open>How the code reads an envelope's action and context.\<close>

definition msg_action :: "runtime \<Rightarrow> pydict \<Rightarrow> exn + pyval" where
  "msg_action rt message = py_get rt (dict_get message ''payload'' (PDict [])) ''action'' PNone"

definition msg_data :: "runtime \<Rightarrow> pydict \<Rightarrow> exn + pyval" where
  "msg_data rt message = py_get rt (dict_get message ''payload'' (PDict [])) ''data'' (PDict [])"

definition msg_context :: "pydict \<Rightarrow> pyval" where
  "msg_context message = dict_get message ''context'' (PDict [])"

definition create_request ::
  "stamp \<Rightarrow> string \<Rightarrow> string \<Rightarrow> string \<Rightarrow> pyval \<Rightarrow> pydict option \<Rightarrow> pydict" where
  "create_request st sender receiver action data context =
     [(''message_id'', PStr (fst st)),
      (''sender'', PStr sender),
      (''receiver'', PStr receiver),
      (''timestamp'', PStr (snd st)),
      (''message_type'', PStr ''request''),
      (''payload'', PDict [(''action'', PStr action), (''data'', data)]),
      (''context'', PDict (case context of None \<Rightarrow> [] | Some c \<Rightarrow> c))]"

definition create_response :: "runtime \<Rightarrow> stamp \<Rightarrow> pydict \<Rightarrow> string \<Rightarrow> pyval \<Rightarrow> exn + pydict" where
  "create_response rt st original_message sender data =
     and_then (msg_action rt original_message) (\<lambda>action.
       Inr [(''message_id'', PStr (fst st)),
            (''sender'', PStr sender),
            (''receiver'', dict_get original_message ''sender'' PNone),
            (''timestamp'', PStr (snd st)),
            (''message_type'', PStr ''response''),
            (''payload'', PDict [(''action'', action), (''data'', data)]),
            (''context'', msg_context original_message)])"

definition create_error :: "runtime \<Rightarrow> stamp \<Rightarrow> pydict \<Rightarrow> string \<Rightarrow> string \<Rightarrow> exn + pydict" where
  "create_error rt st original_message sender error =
     and_then (msg_action rt original_message) (\<lambda>action.
       Inr [(''message_id'', PStr (fst st)),
            (''sender'', PStr sender),
            (''receiver'', dict_get original_message ''sender'' PNone),
            (''timestamp'', PStr (snd st)),
            (''message_type'', PStr ''error''),
            (''payload'', PDict [(''error'', PStr error), (''action'', action)]),
            (''context'', msg_context original_message)])"

section \<open>Stage adapters (agents/*.py)\<close>

text \<open>
  The envelope every adapter returns after its stage logic ran: a response carrying the result,
  or an error carrying the description of the exception the logic raised.
\<close>

definition response_envelope :: "stamp \<Rightarrow> string \<Rightarrow> pydict \<Rightarrow> string \<Rightarrow> pyval \<Rightarrow> pydict" where
  "response_envelope st name message action result =
     [(''message_id'', PStr (fst st)),
      (''sender'', PStr name),
      (''receiver'', dict_get message ''sender'' PNone),
      (''timestamp'', PStr (snd st)),
      (''message_type'', PStr ''response''),
      (''payload'', PDict [(''action'', PStr action), (''data'', result)]),
      (''context'', msg_context message)]"

definition error_envelope :: "stamp \<Rightarrow> string \<Rightarrow> pydict \<Rightarrow> pyval \<Rightarrow> exn \<Rightarrow> pydict" where
  "error_envelope st name message action e =
     [(''message_id'', PStr (fst st)),
      (''sender'', PStr name),
      (''receiver'', dict_get message ''sender'' PNone),
      (''timestamp'', PStr (snd st)),
      (''message_type'', PStr ''error''),
      (''payload'', PDict [(''error'', PStr (str_exn e)), (''action'', action)]),
      (''context'', msg_context message)]"

text \<open>The envelope of the fall-through \<open>return\<close> at the end of every \<open>process_message\<close>.\<close>

definition unknown_action :: "runtime \<Rightarrow> pyval \<Rightarrow> pydict" where
  "unknown_action rt action =
     [(''message_type'', PStr ''error''),
      (''payload'', PDict [(''error'', PStr (''Unknown action: '' @ py_str rt action))])]"

subsection \<open>ReaderAgent\<close>

text \<open>
  Opening a PDF and downloading from arXiv are input/output: they are the two fields of the
  reader's collaborators, each returning the value or the exception raised.
\<close>

record reader_io =
  extract_from_pdf :: "pyval \<Rightarrow> exn + pyval"
  download_arxiv_paper :: "pyval \<Rightarrow> exn + pyval"

definition reader_extract_paper :: "runtime \<Rightarrow> reader_io \<Rightarrow> pyval \<Rightarrow> pyval \<Rightarrow> exn + pyval" where
  "reader_extract_paper rt io source source_type =
     (if source_type = PStr ''pdf'' then extract_from_pdf io source
      else if source_type = PStr ''arxiv_id'' then
        and_then (download_arxiv_paper io source) (extract_from_pdf io)
      else Inl (ValueError (''Unsupported source type: '' @ py_str rt source_type)))"

definition reader_process_message :: "runtime \<Rightarrow> reader_io \<Rightarrow> stamp \<Rightarrow> pydict \<Rightarrow> exn + pydict" where
  "reader_process_message rt io st message =
     and_then (msg_action rt message) (\<lambda>action.
     and_then (msg_data rt message) (\<lambda>data.
       if action = PStr ''extract_paper'' then
         and_then (py_get rt data ''source'' PNone) (\<lambda>source.
         and_then (py_get rt data ''source_type'' (PStr ''pdf'')) (\<lambda>source_type.
           case reader_extract_paper rt io source source_type of
             Inr paper_content \<Rightarrow>
               Inr (response_envelope st ''ReaderAgent'' message ''extract_paper'' paper_content)
           | Inl e \<Rightarrow> Inr (error_envelope st ''ReaderAgent'' message action e)))
       else Inr (unknown_action rt action)))"

subsection \<open>CriticAgent\<close>

definition critic_process_message ::
  "runtime \<Rightarrow> (pyval \<Rightarrow> pyval \<Rightarrow> exn + pyval) \<Rightarrow> stamp \<Rightarrow> pydict \<Rightarrow> exn + pydict" where
  "critic_process_message rt critic_analyze_paper st message =
     and_then (msg_action rt message) (\<lambda>action.
     and_then (msg_data rt message) (\<lambda>data.
       if action = PStr ''analyze_paper'' then
         and_then (py_get rt data ''paper_content'' (PDict [])) (\<lambda>paper_content.
         and_then (py_get rt data ''focus_areas'' PNone) (\<lambda>focus_areas.
           case critic_analyze_paper paper_content focus_areas of
             Inr analysis \<Rightarrow>
               Inr (response_envelope st ''CriticAgent'' message ''analyze_paper'' analysis)
           | Inl e \<Rightarrow> Inr (error_envelope st ''CriticAgent'' message action e)))
       else Inr (unknown_action rt action)))"

subsection \<open>CiteAgent\<close>

definition cite_process_message ::
  "runtime \<Rightarrow> (pyval \<Rightarrow> pyval \<Rightarrow> exn + pyval) \<Rightarrow> stamp \<Rightarrow> pydict \<Rightarrow> exn + pydict" where
  "cite_process_message rt cite_analyze_citations st message =
     and_then (msg_action rt message) (\<lambda>action.
     and_then (msg_data rt message) (\<lambda>data.
       if action = PStr ''analyze_citations'' then
         and_then (py_get rt data ''paper_content'' (PDict [])) (\<lambda>paper_content.
         and_then (py_get rt data ''max_related'' (PInt 10)) (\<lambda>max_related.
           case cite_analyze_citations paper_content max_related of
             Inr analysis \<Rightarrow>
               Inr (response_envelope st ''CiteAgent'' message ''analyze_citations'' analysis)
           | Inl e \<Rightarrow> Inr (error_envelope st ''CiteAgent'' message action e)))
       else Inr (unknown_action rt action)))"

subsection \<open>MetaReviewerAgent\<close>

definition meta_process_message ::
  "runtime \<Rightarrow> (pyval \<Rightarrow> pyval \<Rightarrow> pyval \<Rightarrow> exn + pyval) \<Rightarrow> stamp \<Rightarrow> pydict \<Rightarrow> exn + pydict" where
  "meta_process_message rt meta_generate_review st message =
     and_then (msg_action rt message) (\<lambda>action.
     and_then (msg_data rt message) (\<lambda>data.
       if action = PStr ''generate_review'' then
         and_then (py_get rt data ''paper_content'' (PDict [])) (\<lambda>paper_content.
         and_then (py_get rt data ''critic_analysis'' (PDict [])) (\<lambda>critic_analysis.
         and_then (py_get rt data ''citation_data'' PNone) (\<lambda>citation_data.
           case meta_generate_review paper_content critic_analysis citation_data of
             Inr review \<Rightarrow>
               Inr (response_envelope st ''MetaReviewerAgent'' message ''generate_review'' review)
           | Inl e \<Rightarrow> Inr (error_envelope st ''MetaReviewerAgent'' message action e))))
       else Inr (unknown_action rt action)))"

section \<open>The coordinator (agents/orchestrator.py)\<close>

text \<open>
  \<open>ReviewState\<close> is a \<open>TypedDict\<close> whose keys are all given by \<open>review_paper\<close> when it
  builds the initial state, so it is a record and the \<open>state.get(key, default)\<close> reads never
  take their default.
\<close>

record review_state =
  paper_source :: string
  source_type :: string
  session_id :: string
  paper_content :: pyval
  critic_analysis :: pyval
  citation_data :: pyval
  final_review :: pyval
  errors :: "string list"
  stage :: string
  start_time :: string
  tool_calls :: int

type_synonym agent = "pydict \<Rightarrow> exn + pydict"

record orchestrator =
  reader_agent :: agent
  critic_agent :: agent
  meta_reviewer_agent :: agent
  cite_agent :: agent

text \<open>
  The nodes also print their progress. Writing to the console is taken not to fail; what is
  modelled of a \<open>print\<close> is the evaluation of its arguments, which may raise inside the
  node's \<open>try\<close> block.
\<close>

text \<open>
  Each node reads the adapter's reply the same way:
  \<open>response["message_type"] == "response"\<close> selects \<open>response["payload"]["data"]\<close>, anything
  else selects \<open>response['payload'].get('error')\<close>. Every one of these reads may raise.
\<close>

datatype reply = Result pyval | Failure pyval

definition read_response :: "runtime \<Rightarrow> pydict \<Rightarrow> exn + reply" where
  "read_response rt response =
     and_then (dict_item response ''message_type'') (\<lambda>message_type.
       if message_type = PStr ''response'' then
         and_then (dict_item response ''payload'') (\<lambda>payload.
         and_then (py_item rt payload ''data'') (\<lambda>data. Inr (Result data)))
       else
         and_then (dict_item response ''payload'') (\<lambda>payload.
         and_then (py_get rt payload ''error'' PNone) (\<lambda>err. Inr (Failure err))))"

definition request ::
  "stamp \<Rightarrow> string \<Rightarrow> string \<Rightarrow> pydict \<Rightarrow> review_state \<Rightarrow> pydict" where
  "request st receiver action data state =
     [(''message_id'', PStr (fst st)),
      (''sender'', PStr ''orchestrator''),
      (''receiver'', PStr receiver),
      (''timestamp'', PStr (snd st)),
      (''message_type'', PStr ''request''),
      (''payload'', PDict [(''action'', PStr action), (''data'', PDict data)]),
      (''context'', PDict [(''session_id'', PStr (session_id state))])]"

definition record_error :: "string \<Rightarrow> review_state \<Rightarrow> review_state" where
  "record_error error_msg state = state\<lparr>errors := errors state @ [error_msg]\<rparr>"

text \<open>What a node learns from calling an adapter with a request.\<close>

abbreviation outcome :: "runtime \<Rightarrow> agent \<Rightarrow> pydict \<Rightarrow> exn + reply" where
  "outcome rt a m \<equiv> and_then (a m) (read_response rt)"

subsection \<open>Node: extract\<close>

definition extract_message :: "stamp \<Rightarrow> review_state \<Rightarrow> pydict" where
  "extract_message st state =
     request st ''ReaderAgent'' ''extract_paper''
       [(''source'', PStr (paper_source state)), (''source_type'', PStr (source_type state))] state"

definition extract_paper :: "runtime \<Rightarrow> agent \<Rightarrow> stamp \<Rightarrow> review_state \<Rightarrow> review_state" where
  "extract_paper rt reader st state0 =
     (let state = state0\<lparr>stage := ''extraction'', tool_calls := tool_calls state0 + 1\<rparr> in
      case and_then (reader (extract_message st state)) (read_response rt) of
        Inl e \<Rightarrow> record_error (''Extraction failed: '' @ str_exn e) state
      | Inr (Failure err) \<Rightarrow> record_error (''Reader Agent error: '' @ py_str rt err) state
      | Inr (Result data) \<Rightarrow>
          (let state1 = state\<lparr>paper_content := data\<rparr> in
           case py_get rt data ''title'' (PStr ''Unknown'') of
             Inl e \<Rightarrow> record_error (''Extraction failed: '' @ str_exn e) state1
           | Inr title \<Rightarrow> state1))"

subsection \<open>Node: analyze\<close>

definition analyze_message :: "stamp \<Rightarrow> review_state \<Rightarrow> pydict" where
  "analyze_message st state =
     request st ''CriticAgent'' ''analyze_paper''
       [(''paper_content'', paper_content state)] state"

definition analyze_paper :: "runtime \<Rightarrow> agent \<Rightarrow> stamp \<Rightarrow> review_state \<Rightarrow> review_state" where
  "analyze_paper rt critic st state0 =
     (let state = state0\<lparr>stage := ''analysis'', tool_calls := tool_calls state0 + 1\<rparr> in
      case and_then (critic (analyze_message st state)) (read_response rt) of
        Inl e \<Rightarrow> record_error (''Analysis failed: '' @ str_exn e) state
      | Inr (Failure err) \<Rightarrow> record_error (''Critic Agent error: '' @ py_str rt err) state
      | Inr (Result data) \<Rightarrow>
          (let state1 = state\<lparr>critic_analysis := data\<rparr> in
           case and_then (py_get rt data ''overall_score'' (PInt 0)) (format_1f rt) of
             Inl e \<Rightarrow> record_error (''Analysis failed: '' @ str_exn e) state1
           | Inr u \<Rightarrow> state1))"

subsection \<open>Node: find\_citations\<close>

definition citations_message :: "stamp \<Rightarrow> review_state \<Rightarrow> pydict" where
  "citations_message st state =
     request st ''CiteAgent'' ''analyze_citations''
       [(''paper_content'', paper_content state), (''max_related'', PInt 10)] state"

definition find_citations :: "runtime \<Rightarrow> agent \<Rightarrow> stamp \<Rightarrow> review_state \<Rightarrow> review_state" where
  "find_citations rt cite st state0 =
     (let state = state0\<lparr>stage := ''citation_analysis'', tool_calls := tool_calls state0 + 1\<rparr> in
      case and_then (cite (citations_message st state)) (read_response rt) of
        Inl e \<Rightarrow>
          (record_error (''Citation analysis failed: '' @ str_exn e) state)
            \<lparr>citation_data := PDict []\<rparr>
      | Inr (Failure err) \<Rightarrow>
          (record_error (''CiteAgent error: '' @ py_str rt err) state)
            \<lparr>citation_data := PDict []\<rparr>
      | Inr (Result data) \<Rightarrow>
          (let state1 = state\<lparr>citation_data := data\<rparr> in
           case and_then (py_get rt data ''related_papers'' (PList [])) (py_len rt) of
             Inl e \<Rightarrow>
               (record_error (''Citation analysis failed: '' @ str_exn e) state1)
                 \<lparr>citation_data := PDict []\<rparr>
           | Inr related_count \<Rightarrow> state1))"

subsection \<open>Node: generate\_review\<close>

definition review_message :: "stamp \<Rightarrow> review_state \<Rightarrow> pydict" where
  "review_message st state =
     request st ''MetaReviewerAgent'' ''generate_review''
       [(''paper_content'', paper_content state),
        (''critic_analysis'', critic_analysis state),
        (''citation_data'', citation_data state)] state"

definition generate_review :: "runtime \<Rightarrow> agent \<Rightarrow> stamp \<Rightarrow> review_state \<Rightarrow> review_state" where
  "generate_review rt meta st state0 =
     (let state = state0\<lparr>stage := ''review_generation'', tool_calls := tool_calls state0 + 1\<rparr> in
      case and_then (meta (review_message st state)) (read_response rt) of
        Inl e \<Rightarrow> record_error (''Review generation failed: '' @ str_exn e) state
      | Inr (Failure err) \<Rightarrow> record_error (''MetaReviewer error: '' @ py_str rt err) state
      | Inr (Result data) \<Rightarrow> state\<lparr>final_review := data\<rparr>)"

subsection \<open>The workflow graph\<close>

text \<open>
  \<open>_build_workflow\<close> declares four nodes, the entry point and one edge out of each node, the
  last one to \<open>END\<close>. The compiled graph runs the node functions along the edges. After a node
  returns, the graph writes every key of the returned state back into the run's state; a key
  declared with a reducer is written through it. \<open>ReviewState\<close> declares
  \<open>errors: Annotated[list, operator.add]\<close>, all its other keys are plain. The graph library is
  not part of the repository, so the way the \<open>errors\<close> key is written is an argument of the run:
  \<open>Operator_add\<close> is what the annotation asks for, \<open>Overwrite\<close> is the plain write.
  The initial state enters the run unchanged: \<open>review_paper\<close> starts with an empty error
  list, which either write leaves empty.
\<close>

datatype node = Extract | Analyze | Find_citations | Generate_review

definition entry_point :: node where
  "entry_point = Extract"

fun edge :: "node \<Rightarrow> node option" where
  "edge Extract = Some Analyze"
| "edge Analyze = Some Find_citations"
| "edge Find_citations = Some Generate_review"
| "edge Generate_review = None"

datatype reducer = Overwrite | Operator_add

fun write_errors :: "reducer \<Rightarrow> string list \<Rightarrow> string list \<Rightarrow> string list" where
  "write_errors Overwrite current update = update"
| "write_errors Operator_add current update = current @ update"

definition graph_step ::
  "reducer \<Rightarrow> (review_state \<Rightarrow> review_state) \<Rightarrow> review_state \<Rightarrow> review_state" where
  "graph_step r f state =
     (let out = f state in out\<lparr>errors := write_errors r (errors state) (errors out)\<rparr>)"

record stamps =
  extract_stamp :: stamp
  analyze_stamp :: stamp
  citations_stamp :: stamp
  review_stamp :: stamp

fun node_fn ::
  "runtime \<Rightarrow> orchestrator \<Rightarrow> stamps \<Rightarrow> node \<Rightarrow> review_state \<Rightarrow> review_state" where
  "node_fn rt orch sts Extract = extract_paper rt (reader_agent orch) (extract_stamp sts)"
| "node_fn rt orch sts Analyze = analyze_paper rt (critic_agent orch) (analyze_stamp sts)"
| "node_fn rt orch sts Find_citations = find_citations rt (cite_agent orch) (citations_stamp sts)"
| "node_fn rt orch sts Generate_review =
     generate_review rt (meta_reviewer_agent orch) (review_stamp sts)"

text \<open>One transition of the run: a node, then the write of its result.\<close>

abbreviation transition ::
  "reducer \<Rightarrow> runtime \<Rightarrow> orchestrator \<Rightarrow> stamps \<Rightarrow> node \<Rightarrow> review_state \<Rightarrow> review_state" where
  "transition r rt orch sts n \<equiv> graph_step r (node_fn rt orch sts n)"

fun rank :: "node \<Rightarrow> nat" where
  "rank Extract = 3"
| "rank Analyze = 2"
| "rank Find_citations = 1"
| "rank Generate_review = 0"

function run_from ::
  "reducer \<Rightarrow> runtime \<Rightarrow> orchestrator \<Rightarrow> stamps \<Rightarrow> node \<Rightarrow> review_state \<Rightarrow> review_state" where
  "run_from r rt orch sts n state =
     (let state' = graph_step r (node_fn rt orch sts n) state in
      case edge n of None \<Rightarrow> state' | Some n' \<Rightarrow> run_from r rt orch sts n' state')"
  by pat_completeness auto
termination
proof (relation "measure (\<lambda>(r, rt, orch, sts, n, state). rank n)")
  show "wf (measure (\<lambda>(r, rt, orch, sts, n, state). rank n))"
    by simp
next
  fix r :: reducer and rt :: runtime and orch :: orchestrator and sts :: stamps
    and n n' :: node and state state' :: review_state
  assume "edge n = Some n'"
  then have "rank n' < rank n"
    by (cases n) auto
  then show "((r, rt, orch, sts, n', state'), (r, rt, orch, sts, n, state))
      \<in> measure (\<lambda>(r, rt, orch, sts, n, state). rank n)"
    by simp
qed

definition invoke ::
  "reducer \<Rightarrow> runtime \<Rightarrow> orchestrator \<Rightarrow> stamps \<Rightarrow> review_state \<Rightarrow> review_state" where
  "invoke r rt orch sts initial_state = run_from r rt orch sts entry_point initial_state"

subsection \<open>review\_paper\<close>

text \<open>
  The compiled application is what \<open>review_paper\<close> calls; it returns the final state or raises.
  No node raises, but the graph library may: the application is compiled with a checkpointer,
  which writes a snapshot of the state when the run starts and after every transition, and a
  write that fails (the checkpointer cannot serialise every value a stage may return) ends the
  run with its exception. The checkpointer is not part of the repository, so whether a write
  raises is an argument: \<open>None\<close> when the snapshot is written, the exception otherwise.
\<close>

type_synonym app = "review_state \<Rightarrow> exn + review_state"

type_synonym checkpointer = "review_state \<Rightarrow> exn option"

function run_checked ::
  "reducer \<Rightarrow> runtime \<Rightarrow> orchestrator \<Rightarrow> stamps \<Rightarrow> checkpointer \<Rightarrow> node \<Rightarrow> app" where
  "run_checked r rt orch sts cp n state =
     (let state' = transition r rt orch sts n state in
      case cp state' of
        Some e \<Rightarrow> Inl e
      | None \<Rightarrow>
          (case edge n of
             None \<Rightarrow> Inr state'
           | Some n' \<Rightarrow> run_checked r rt orch sts cp n' state'))"
  by pat_completeness auto
termination
proof (relation "measure (\<lambda>(r, rt, orch, sts, cp, n, state). rank n)")
  show "wf (measure (\<lambda>(r, rt, orch, sts, cp, n, state). rank n))"
    by simp
next
  fix r :: reducer and rt :: runtime and orch :: orchestrator and sts :: stamps
    and cp :: checkpointer and n n' :: node and state state' :: review_state
  assume "edge n = Some n'"
  then have "rank n' < rank n"
    by (cases n) auto
  then show "((r, rt, orch, sts, cp, n', state'), (r, rt, orch, sts, cp, n, state))
      \<in> measure (\<lambda>(r, rt, orch, sts, cp, n, state). rank n)"
    by simp
qed

definition compiled_app ::
  "reducer \<Rightarrow> runtime \<Rightarrow> orchestrator \<Rightarrow> stamps \<Rightarrow> checkpointer \<Rightarrow> app" where
  "compiled_app r rt orch sts cp =
     (\<lambda>initial_state.
        case cp initial_state of
          Some e \<Rightarrow> Inl e
        | None \<Rightarrow> run_checked r rt orch sts cp entry_point initial_state)"

text \<open>
  The values read from the clock and the session identifier are an argument of
  \<open>review_paper\<close>.
\<close>

record run_clock =
  session_uuid :: string
  start_iso :: string
  end_iso :: string
  processing_time :: pyfloat
  failed_processing_time :: pyfloat

definition initial_state :: "run_clock \<Rightarrow> string \<Rightarrow> string \<Rightarrow> review_state" where
  "initial_state clock src src_type =
     \<lparr>paper_source = src,
      source_type = src_type,
      session_id = session_uuid clock,
      paper_content = PDict [],
      critic_analysis = PDict [],
      citation_data = PDict [],
      final_review = PDict [],
      errors = [],
      stage = ''initialized'',
      start_time = start_iso clock,
      tool_calls = 0\<rparr>"

definition review_paper :: "run_clock \<Rightarrow> app \<Rightarrow> string \<Rightarrow> string \<Rightarrow> pydict" where
  "review_paper clock app src src_type =
     (case app (initial_state clock src src_type) of
        Inr final_state \<Rightarrow>
          [(''session_id'', PStr (session_uuid clock)),
           (''paper_content'', paper_content final_state),
           (''critic_analysis'', critic_analysis final_state),
           (''citation_data'', citation_data final_state),
           (''final_review'', final_review final_state),
           (''metadata'', PDict
              [(''processing_time_seconds'', PFloat (processing_time clock)),
               (''tool_calls'', PInt (tool_calls final_state)),
               (''errors'', PList (map PStr (errors final_state))),
               (''start_time'', PStr (start_iso clock)),
               (''end_time'', PStr (end_iso clock))])]
      | Inl e \<Rightarrow>
          [(''session_id'', PStr (session_uuid clock)),
           (''error'', PStr (str_exn e)),
           (''metadata'', PDict
              [(''processing_time_seconds'', PFloat (failed_processing_time clock)),
               (''failed'', PBool True)])])"

section \<open>The checkpoint store\<close>

text \<open>
  The repository constructs the graph library's \<open>MemorySaver\<close> and hands it to \<open>compile\<close>;
  the store's own code is not part of the repository.
\<close>

type_synonym checkpoint_store = "string \<rightharpoonup> review_state"

text \<open>
  Modelled from the spec: the checkpoint store's \<open>save\<close>, which is missing from the
  repository. \<open>save(run_id, state)\<close> overwrites any prior snapshot for that identifier.
\<close>

definition save :: "string \<Rightarrow> review_state \<Rightarrow> checkpoint_store \<Rightarrow> checkpoint_store" where
  "save run_id state store = store(run_id \<mapsto> state)"

text \<open>
  Modelled from the spec: the checkpoint store's \<open>load\<close>, which is missing from the
  repository. \<open>load(run_id)\<close> gives the state saved under the identifier, or not-found.
\<close>

definition load :: "string \<Rightarrow> checkpoint_store \<Rightarrow> review_state option" where
  "load run_id store = store run_id"

section \<open>Text heuristics of the reader (agents/reader\_agent.py)\<close>

text \<open>
  The heuristics work on the text of the paper with regular expressions. The regular-expression
  engine is a library, so the model takes the operations of \<open>re\<close> as a record, indexed by the
  patterns the code passes. A match carries what the code reads of it: \<open>group(1)\<close>,
  \<open>start()\<close> and \<open>end()\<close>. The text is a list over any character type: Python counts code
  points, and nothing below depends on which characters there are.
\<close>

datatype pattern =
    Author_line
  | Author_separator
  | Numbered_section
  | All_caps_section
  | Title_case_section
  | References_block
  | Reference_separator
  | Level_one
  | Level_two

record 'c match =
  group1 :: "'c list"
  match_start :: nat
  match_end :: nat

record 'c text_ops =
  newline :: 'c
  is_space :: "'c \<Rightarrow> bool"
  isupper :: "'c list \<Rightarrow> bool"
  re_match :: "pattern \<Rightarrow> 'c list \<Rightarrow> bool"
  re_split :: "pattern \<Rightarrow> 'c list \<Rightarrow> 'c list list"
  re_finditer :: "pattern \<Rightarrow> 'c list \<Rightarrow> 'c match list"
  re_search :: "pattern \<Rightarrow> 'c list \<Rightarrow> 'c match option"

text \<open>\<open>text.split(sep)\<close> for a one-character separator, and \<open>text.strip()\<close>.\<close>

fun split_on :: "'c \<Rightarrow> 'c list \<Rightarrow> 'c list list" where
  "split_on sep [] = [[]]"
| "split_on sep (c # cs) =
     (if c = sep then [] # split_on sep cs
      else (case split_on sep cs of
              [] \<Rightarrow> [[c]]
            | l # ls \<Rightarrow> (c # l) # ls))"

definition strip :: "'c text_ops \<Rightarrow> 'c list \<Rightarrow> 'c list" where
  "strip ops s = rev (dropWhile (is_space ops) (rev (dropWhile (is_space ops) s)))"

text \<open>The slice \<open>text[i:j]\<close> for indices that are not negative.\<close>

definition slice :: "'c list \<Rightarrow> nat \<Rightarrow> nat \<Rightarrow> 'c list" where
  "slice s i j = take (j - i) (drop i s)"

definition extract_authors :: "'c text_ops \<Rightarrow> 'c list \<Rightarrow> 'c list list" where
  "extract_authors ops text =
     (let lines = split_on (newline ops) text;
          authors = concat (map (\<lambda>line0.
            let line = strip ops line0 in
            if re_match ops Author_line line then
              map (strip ops) (filter (\<lambda>a. strip ops a \<noteq> []) (re_split ops Author_separator line))
            else []) (take 20 lines))
      in take 10 authors)"

record 'c paper_section =
  heading :: "'c list"
  level :: int
  content :: "'c list"

definition determine_section_level :: "'c text_ops \<Rightarrow> 'c list \<Rightarrow> int" where
  "determine_section_level ops h =
     (if re_match ops Level_one h then 1
      else if re_match ops Level_two h then 2
      else if isupper ops h then 1
      else 2)"

definition section_of :: "'c text_ops \<Rightarrow> pattern \<Rightarrow> 'c list \<Rightarrow> 'c match \<Rightarrow> 'c paper_section" where
  "section_of ops pat text m =
     (let h = strip ops (group1 m);
          start_pos = match_end m;
          end_pos = (case re_search ops pat (drop start_pos text) of
                       Some next_match \<Rightarrow> start_pos + match_start next_match
                     | None \<Rightarrow> length text);
          body = strip ops (slice text start_pos end_pos)
      in \<lparr>heading = h, level = determine_section_level ops h, content = take 1000 body\<rparr>)"

definition section_patterns :: "pattern list" where
  "section_patterns = [Numbered_section, All_caps_section, Title_case_section]"

definition extract_sections :: "'c text_ops \<Rightarrow> 'c list \<Rightarrow> 'c paper_section list" where
  "extract_sections ops text =
     take 15 (concat (map (\<lambda>pat. map (section_of ops pat text) (re_finditer ops pat text))
       section_patterns))"

definition extract_references :: "'c text_ops \<Rightarrow> 'c list \<Rightarrow> 'c list list" where
  "extract_references ops text =
     (let references =
        (case re_search ops References_block text of
           Some m \<Rightarrow>
             map (strip ops)
               (filter (\<lambda>ref. length (strip ops ref) > 20)
                 (re_split ops Reference_separator (group1 m)))
         | None \<Rightarrow> [])
      in take 50 references)"

section \<open>Sample inputs\<close>

text \<open>Concrete inputs on which the properties below are exercised.\<close>

definition sample_ops :: "nat text_ops" where
  "sample_ops =
     \<lparr>newline = 10,
      is_space = (\<lambda>c. c = 32),
      isupper = (\<lambda>s. False),
      re_match = (\<lambda>p s. p = Author_line),
      re_split = (\<lambda>p s. [s, [32], s]),
      re_finditer = (\<lambda>p s.
        if p = Numbered_section
        then [\<lparr>group1 = [49, 32, 73], match_start = 0, match_end = 2\<rparr>] else []),
      re_search = (\<lambda>p s.
        if p = References_block
        then Some \<lparr>group1 = replicate 21 82, match_start = 0, match_end = 0\<rparr> else None)\<rparr>"

definition sample_text :: "nat list" where
  "sample_text = [65, 32, 66, 10, 32, 67, 32]"

fun type_name :: "pyval \<Rightarrow> string" where
  "type_name PNone = ''NoneType''"
| "type_name (PBool b) = ''bool''"
| "type_name (PInt i) = ''int''"
| "type_name (PFloat x) = ''float''"
| "type_name (PStr s) = ''str''"
| "type_name (PList xs) = ''list''"
| "type_name (PDict d) = ''dict''"

definition quoted :: "string \<Rightarrow> string" where
  "quoted s = [CHR 0x27] @ s @ [CHR 0x27]"

text \<open>
  An interpreter with the wording of CPython 3.11 for the messages. The samples never print a
  number or a container, so that text is a placeholder.
\<close>

fun subscript_message :: "pyval \<Rightarrow> string" where
  "subscript_message (PStr s) = ''string indices must be integers, not '' @ quoted ''str''"
| "subscript_message (PList xs) = ''list indices must be integers or slices, not str''"
| "subscript_message v = quoted (type_name v) @ '' object is not subscriptable''"

fun format_message :: "pyval \<Rightarrow> string" where
  "format_message (PStr s) =
     ''Unknown format code '' @ quoted ''f'' @ '' for object of type '' @ quoted ''str''"
| "format_message v = ''unsupported format string passed to '' @ type_name v @ ''.__format__''"

definition sample_runtime :: runtime where
  "sample_runtime =
     \<lparr>format_other = (\<lambda>v. ''<'' @ type_name v @ ''>''),
      no_attribute = (\<lambda>v a. quoted (type_name v) @ '' object has no attribute '' @ quoted a),
      not_subscriptable = subscript_message,
      no_len = (\<lambda>v. ''object of type '' @ quoted (type_name v) @ '' has no len()''),
      bad_format = format_message\<rparr>"

definition sample_stamp :: stamp where
  "sample_stamp = (''0b9d'', ''2024-01-01T00:00:00'')"

definition sample_io :: reader_io where
  "sample_io =
     \<lparr>extract_from_pdf = (\<lambda>source. Inr (PDict [(''title'', PStr ''X'')])),
      download_arxiv_paper = (\<lambda>source. Inl (OtherError ''network unreachable''))\<rparr>"

definition unknown_request :: pydict where
  "unknown_request =
     create_request sample_stamp ''orchestrator'' ''ReaderAgent'' ''summarize'' (PDict [])
       (Some [(''session_id'', PStr ''s1'')])"

definition stray_response :: pydict where
  "stray_response =
     [(''sender'', PStr ''CriticAgent''),
      (''message_type'', PStr ''response''),
      (''payload'', PDict [(''action'', PStr ''extract_paper''),
                           (''data'', PDict [(''source'', PStr ''paper.pdf'')])]),
      (''context'', PDict [(''session_id'', PStr ''s1'')])]"

definition malformed_request :: pydict where
  "malformed_request =
     [(''sender'', PStr ''client''),
      (''message_type'', PStr ''request''),
      (''payload'', PStr ''extract_paper'')]"

definition failing_analysis :: "pyval \<Rightarrow> pyval \<Rightarrow> exn + pyval" where
  "failing_analysis = (\<lambda>content focus. Inl (OtherError ''no sections''))"

definition analysis_request :: pydict where
  "analysis_request =
     create_request sample_stamp ''orchestrator'' ''CriticAgent'' ''analyze_paper''
       (PDict [(''paper_content'', PDict [])]) (Some [(''session_id'', PStr ''s1'')])"

definition sample_clock :: run_clock where
  "sample_clock =
     \<lparr>session_uuid = ''s1'',
      start_iso = ''2024-01-01T00:00:00'',
      end_iso = ''2024-01-01T00:00:09'',
      processing_time = Float64 0x4022000000000000,
      failed_processing_time = Float64 0x3FF0000000000000\<rparr>"

definition failing_app :: app where
  "failing_app = (\<lambda>state. Inl (OtherError ''Recursion limit reached''))"

definition sample_orchestrator :: orchestrator where
  "sample_orchestrator =
     \<lparr>reader_agent = reader_process_message sample_runtime sample_io sample_stamp,
      critic_agent = critic_process_message sample_runtime
        (\<lambda>content focus. Inr (PDict [(''overall_score'', PInt 7)])) sample_stamp,
      meta_reviewer_agent = meta_process_message sample_runtime
        (\<lambda>content analysis citations. Inr (PDict [(''recommendation'', PStr ''Accept'')]))
        sample_stamp,
      cite_agent = cite_process_message sample_runtime
        (\<lambda>content max_related. Inl (OtherError ''arxiv unreachable'')) sample_stamp\<rparr>"

definition sample_stamps :: stamps where
  "sample_stamps =
     \<lparr>extract_stamp = sample_stamp, analyze_stamp = sample_stamp,
      citations_stamp = sample_stamp, review_stamp = sample_stamp\<rparr>"

section \<open>Properties of the envelopes and the adapters\<close>

lemma factories_keep_action_and_context:
  "create_response rt st original sender data = Inr response \<Longrightarrow>
     msg_action rt response = msg_action rt original \<and> msg_context response = msg_context original"
  "create_error rt st original sender error = Inr response \<Longrightarrow>
     msg_action rt response = msg_action rt original \<and> msg_context response = msg_context original"
  by (auto simp: create_response_def create_error_def and_then_def msg_action_def msg_context_def
      dict_get_def split: sum.splits)

text \<open>
  C1. The factories and the adapters' response and error envelopes carry the request's action and
  context, but the envelope an adapter returns for an action it does not recognise has neither:
  for a request built by \<open>create_request\<close> with action \<open>summarize\<close> and context
  \<open>{session_id: s1}\<close>, each of the four adapters returns an envelope whose context reads as the
  empty dictionary and whose action reads as \<open>None\<close>.
\<close>

theorem unknown_action_drops_context:
  "reader_process_message rt io st unknown_request = Inr (unknown_action rt (PStr ''summarize''))
   \<and> critic_process_message rt critic st unknown_request = Inr (unknown_action rt (PStr ''summarize''))
   \<and> cite_process_message rt cite st unknown_request = Inr (unknown_action rt (PStr ''summarize''))
   \<and> meta_process_message rt meta st unknown_request = Inr (unknown_action rt (PStr ''summarize''))
   \<and> msg_context unknown_request = PDict [(''session_id'', PStr ''s1'')]
   \<and> msg_context (unknown_action rt (PStr ''summarize'')) = PDict []
   \<and> msg_action rt unknown_request = Inr (PStr ''summarize'')
   \<and> msg_action rt (unknown_action rt (PStr ''summarize'')) = Inr PNone"
  by (simp add: reader_process_message_def critic_process_message_def cite_process_message_def
      meta_process_message_def unknown_request_def create_request_def unknown_action_def
      msg_action_def msg_data_def msg_context_def dict_get_def and_then_def)

text \<open>
  C5. No adapter looks at \<open>message_type\<close>. An envelope of kind \<open>response\<close> that carries the
  reader's action is processed like a request: the reader runs its stage logic and answers with a
  response envelope.
\<close>

theorem stray_response_is_processed:
  "reader_process_message sample_runtime sample_io sample_stamp stray_response
     = Inr (response_envelope sample_stamp ''ReaderAgent'' stray_response ''extract_paper''
         (PDict [(''title'', PStr ''X'')]))
   \<and> dict_item stray_response ''message_type'' = Inr (PStr ''response'')
   \<and> dict_item (response_envelope sample_stamp ''ReaderAgent'' stray_response ''extract_paper''
         (PDict [(''title'', PStr ''X'')])) ''message_type'' = Inr (PStr ''response'')"
  by (simp add: reader_process_message_def stray_response_def sample_io_def
      reader_extract_paper_def response_envelope_def
      msg_action_def msg_data_def msg_context_def dict_get_def dict_item_def and_then_def)

lemma msg_action_data:
  "msg_action rt message = Inr action \<Longrightarrow> \<exists>data. msg_data rt message = Inr data"
  by (cases "dict_get message ''payload'' (PDict [])") (simp_all add: msg_action_def msg_data_def)

lemma reader_unmatched:
  "msg_action rt message = Inr action \<Longrightarrow> action \<noteq> PStr ''extract_paper'' \<Longrightarrow>
     reader_process_message rt io st message = Inr (unknown_action rt action)"
  using msg_action_data [of rt message action]
  by (auto simp: reader_process_message_def and_then_def)

lemma critic_unmatched:
  "msg_action rt message = Inr action \<Longrightarrow> action \<noteq> PStr ''analyze_paper'' \<Longrightarrow>
     critic_process_message rt critic st message = Inr (unknown_action rt action)"
  using msg_action_data [of rt message action]
  by (auto simp: critic_process_message_def and_then_def)

lemma cite_unmatched:
  "msg_action rt message = Inr action \<Longrightarrow> action \<noteq> PStr ''analyze_citations'' \<Longrightarrow>
     cite_process_message rt cite st message = Inr (unknown_action rt action)"
  using msg_action_data [of rt message action]
  by (auto simp: cite_process_message_def and_then_def)

lemma meta_unmatched:
  "msg_action rt message = Inr action \<Longrightarrow> action \<noteq> PStr ''generate_review'' \<Longrightarrow>
     meta_process_message rt meta st message = Inr (unknown_action rt action)"
  using msg_action_data [of rt message action]
  by (auto simp: meta_process_message_def and_then_def)

lemma retag_reads:
  "msg_action rt ((''message_type'', v) # message) = msg_action rt message"
  "msg_data rt ((''message_type'', v) # message) = msg_data rt message"
  "msg_context ((''message_type'', v) # message) = msg_context message"
  "dict_get ((''message_type'', v) # message) ''sender'' d = dict_get message ''sender'' d"
  by (simp_all add: msg_action_def msg_data_def msg_context_def dict_get_def)

lemma retag_envelopes:
  "response_envelope st name ((''message_type'', v) # message) a result
     = response_envelope st name message a result"
  "error_envelope st name ((''message_type'', v) # message) action e
     = error_envelope st name message action e"
  by (simp_all add: response_envelope_def error_envelope_def retag_reads)

lemma message_type_ignored:
  "reader_process_message rt io st ((''message_type'', v) # message)
     = reader_process_message rt io st message"
  "critic_process_message rt critic st ((''message_type'', v) # message)
     = critic_process_message rt critic st message"
  "cite_process_message rt cite st ((''message_type'', v) # message)
     = cite_process_message rt cite st message"
  "meta_process_message rt meta st ((''message_type'', v) # message)
     = meta_process_message rt meta st message"
  by (simp_all only: reader_process_message_def critic_process_message_def
      cite_process_message_def meta_process_message_def retag_reads retag_envelopes)

text \<open>
  C5, as the code has it. When the payload of the envelope is a dictionary (or absent), so that the
  action can be read, and the action is not the adapter's own, the adapter returns the error
  envelope \<open>Unknown action\<close> without consulting its stage logic. The kind of the envelope is
  never examined: changing \<open>message_type\<close> changes nothing in what any adapter returns.
\<close>

theorem unmatched_action_is_rejected:
  assumes "msg_action rt message = Inr action"
  shows "(action \<noteq> PStr ''extract_paper'' \<longrightarrow>
            reader_process_message rt io st message = Inr (unknown_action rt action))
       \<and> (action \<noteq> PStr ''analyze_paper'' \<longrightarrow>
            critic_process_message rt critic st message = Inr (unknown_action rt action))
       \<and> (action \<noteq> PStr ''analyze_citations'' \<longrightarrow>
            cite_process_message rt cite st message = Inr (unknown_action rt action))
       \<and> (action \<noteq> PStr ''generate_review'' \<longrightarrow>
            meta_process_message rt meta st message = Inr (unknown_action rt action))
       \<and> dict_item (unknown_action rt action) ''message_type'' = Inr (PStr ''error'')
       \<and> reader_process_message rt io st ((''message_type'', v) # message)
            = reader_process_message rt io st message
       \<and> critic_process_message rt critic st ((''message_type'', v) # message)
            = critic_process_message rt critic st message
       \<and> cite_process_message rt cite st ((''message_type'', v) # message)
            = cite_process_message rt cite st message
       \<and> meta_process_message rt meta st ((''message_type'', v) # message)
            = meta_process_message rt meta st message"
  using assms
  by (simp add: reader_unmatched critic_unmatched cite_unmatched meta_unmatched
      message_type_ignored unknown_action_def dict_item_def)

theorem unmatched_action_is_rejected_witness:
  "msg_action sample_runtime unknown_request = Inr (PStr ''summarize'')
   \<and> reader_process_message sample_runtime sample_io sample_stamp unknown_request
       = Inr (unknown_action sample_runtime (PStr ''summarize''))
   \<and> critic_process_message sample_runtime failing_analysis sample_stamp unknown_request
       = Inr (unknown_action sample_runtime (PStr ''summarize''))
   \<and> dict_item (unknown_action sample_runtime (PStr ''summarize'')) ''message_type''
       = Inr (PStr ''error'')"
proof -
  have a: "msg_action sample_runtime unknown_request = Inr (PStr ''summarize'')"
    by (simp add: unknown_request_def create_request_def msg_action_def dict_get_def)
  have ne: "PStr ''summarize'' \<noteq> PStr ''extract_paper''" "PStr ''summarize'' \<noteq> PStr ''analyze_paper''"
    by simp_all
  from unmatched_action_is_rejected [OF a, of sample_io sample_stamp failing_analysis] a ne
  show ?thesis
    by blast
qed

text \<open>
  C6. An envelope whose payload is a string makes \<open>process_message\<close> raise: the reads of the
  action and the data stand before the \<open>try\<close> block, and the \<open>AttributeError\<close> of
  \<open>.get\<close> on a string reaches the caller.
\<close>

theorem malformed_payload_raises:
  "reader_process_message sample_runtime sample_io sample_stamp malformed_request
     = Inl (AttributeError (quoted ''str'' @ '' object has no attribute '' @ quoted ''get''))
   \<and> cite_process_message sample_runtime (\<lambda>content max_related. Inr (PDict [])) sample_stamp
       malformed_request
     = Inl (AttributeError (quoted ''str'' @ '' object has no attribute '' @ quoted ''get''))"
  by (simp add: reader_process_message_def cite_process_message_def malformed_request_def
      sample_runtime_def msg_action_def msg_data_def dict_get_def and_then_def)

lemma reader_returns:
  assumes "msg_action rt message = Inr action" and "msg_data rt message = Inr (PDict data)"
  shows "reader_process_message rt io st message =
     (if action = PStr ''extract_paper'' then
        (case reader_extract_paper rt io (dict_get data ''source'' PNone)
                (dict_get data ''source_type'' (PStr ''pdf'')) of
           Inr result \<Rightarrow> Inr (response_envelope st ''ReaderAgent'' message ''extract_paper'' result)
         | Inl e \<Rightarrow> Inr (error_envelope st ''ReaderAgent'' message action e))
      else Inr (unknown_action rt action))"
  using assms by (simp add: reader_process_message_def and_then_def)

lemma critic_returns:
  assumes "msg_action rt message = Inr action" and "msg_data rt message = Inr (PDict data)"
  shows "critic_process_message rt critic st message =
     (if action = PStr ''analyze_paper'' then
        (case critic (dict_get data ''paper_content'' (PDict [])) (dict_get data ''focus_areas'' PNone) of
           Inr result \<Rightarrow> Inr (response_envelope st ''CriticAgent'' message ''analyze_paper'' result)
         | Inl e \<Rightarrow> Inr (error_envelope st ''CriticAgent'' message action e))
      else Inr (unknown_action rt action))"
  using assms by (simp add: critic_process_message_def and_then_def)

lemma cite_returns:
  assumes "msg_action rt message = Inr action" and "msg_data rt message = Inr (PDict data)"
  shows "cite_process_message rt cite st message =
     (if action = PStr ''analyze_citations'' then
        (case cite (dict_get data ''paper_content'' (PDict [])) (dict_get data ''max_related'' (PInt 10)) of
           Inr result \<Rightarrow> Inr (response_envelope st ''CiteAgent'' message ''analyze_citations'' result)
         | Inl e \<Rightarrow> Inr (error_envelope st ''CiteAgent'' message action e))
      else Inr (unknown_action rt action))"
  using assms by (simp add: cite_process_message_def and_then_def)

lemma meta_returns:
  assumes "msg_action rt message = Inr action" and "msg_data rt message = Inr (PDict data)"
  shows "meta_process_message rt meta st message =
     (if action = PStr ''generate_review'' then
        (case meta (dict_get data ''paper_content'' (PDict []))
                (dict_get data ''critic_analysis'' (PDict [])) (dict_get data ''citation_data'' PNone) of
           Inr result \<Rightarrow>
             Inr (response_envelope st ''MetaReviewerAgent'' message ''generate_review'' result)
         | Inl e \<Rightarrow> Inr (error_envelope st ''MetaReviewerAgent'' message action e))
      else Inr (unknown_action rt action))"
  using assms by (simp add: meta_process_message_def and_then_def)

lemma error_envelope_description:
  "and_then (dict_item (error_envelope st name message action e) ''payload'')
     (\<lambda>payload. py_item rt payload ''error'') = Inr (PStr (str_exn e))"
  "dict_item (error_envelope st name message action e) ''message_type'' = Inr (PStr ''error'')"
  by (simp_all add: error_envelope_def dict_item_def and_then_def)

text \<open>
  C8. When the workflow raises, the result \<open>review_paper\<close> returns has a metadata block
  without an \<open>errors\<close> key.
\<close>

theorem failed_run_has_no_errors_list:
  "and_then (dict_item (review_paper sample_clock failing_app ''paper.pdf'' ''pdf'') ''metadata'')
     (\<lambda>metadata. py_item sample_runtime metadata ''errors'') = Inl (KeyError ''errors'')"
  by (simp add: review_paper_def failing_app_def and_then_def dict_item_def)

text \<open>
  C8, as the code has it. \<open>review_paper\<close> always returns a result with a metadata block. When
  the workflow returns a final state, the metadata holds the \<open>errors\<close> list of that state.
  When the workflow raises, the result holds the description of the exception under \<open>error\<close>
  and its metadata holds the elapsed time and \<open>failed = True\<close>, and nothing else.
\<close>

theorem review_paper_metadata:
  "(app (initial_state clock src src_type) = Inr final_state \<longrightarrow>
      and_then (dict_item (review_paper clock app src src_type) ''metadata'')
        (\<lambda>metadata. py_item rt metadata ''errors'') = Inr (PList (map PStr (errors final_state))))
   \<and> (app (initial_state clock src src_type) = Inl e \<longrightarrow>
      review_paper clock app src src_type =
        [(''session_id'', PStr (session_uuid clock)),
         (''error'', PStr (str_exn e)),
         (''metadata'', PDict
            [(''processing_time_seconds'', PFloat (failed_processing_time clock)),
             (''failed'', PBool True)])])
   \<and> (\<exists>metadata. dict_item (review_paper clock app src src_type) ''metadata''
         = Inr (PDict metadata))"
  by (simp add: review_paper_def and_then_def dict_item_def split: sum.splits)

theorem review_paper_metadata_witness:
  "failing_app (initial_state sample_clock ''paper.pdf'' ''pdf'')
     = Inl (OtherError ''Recursion limit reached'')
   \<and> review_paper sample_clock failing_app ''paper.pdf'' ''pdf'' =
        [(''session_id'', PStr ''s1''),
         (''error'', PStr ''Recursion limit reached''),
         (''metadata'', PDict
            [(''processing_time_seconds'', PFloat (Float64 0x3FF0000000000000)),
             (''failed'', PBool True)])]
   \<and> and_then (dict_item (review_paper sample_clock
          (\<lambda>state. Inr (record_error ''Extraction failed: boom'' state)) ''paper.pdf'' ''pdf'')
          ''metadata'')
        (\<lambda>metadata. py_item sample_runtime metadata ''errors'')
       = Inr (PList [PStr ''Extraction failed: boom''])"
proof -
  have f: "failing_app (initial_state sample_clock ''paper.pdf'' ''pdf'')
      = Inl (OtherError ''Recursion limit reached'')"
    by (simp add: failing_app_def)
  have g: "(\<lambda>state. Inr (record_error ''Extraction failed: boom'' state))
      (initial_state sample_clock ''paper.pdf'' ''pdf'')
      = Inr (record_error ''Extraction failed: boom'' (initial_state sample_clock ''paper.pdf'' ''pdf''))"
    by simp
  have e: "errors (record_error ''Extraction failed: boom''
      (initial_state sample_clock ''paper.pdf'' ''pdf'')) = [''Extraction failed: boom'']"
    by (simp add: record_error_def initial_state_def)
  from review_paper_metadata [of failing_app sample_clock "''paper.pdf''" "''pdf''" _
      sample_runtime "OtherError ''Recursion limit reached''"]
    review_paper_metadata [of "\<lambda>state. Inr (record_error ''Extraction failed: boom'' state)"
      sample_clock "''paper.pdf''" "''pdf''"
      "record_error ''Extraction failed: boom'' (initial_state sample_clock ''paper.pdf'' ''pdf'')"
      sample_runtime] f g e
  show ?thesis
    by (simp add: sample_clock_def)
qed

section \<open>Properties of the coordinator\<close>

subsection \<open>Stage counter\<close>

lemma tool_calls_record_error: "tool_calls (record_error m s) = tool_calls s"
  by (simp add: record_error_def)

lemma errors_record_error: "errors (record_error m s) = errors s @ [m]"
  by (simp add: record_error_def)

lemma extract_paper_tool_calls: "tool_calls (extract_paper rt a st s) = tool_calls s + 1"
  by (simp add: extract_paper_def Let_def record_error_def split: sum.splits reply.splits)

lemma analyze_paper_tool_calls: "tool_calls (analyze_paper rt a st s) = tool_calls s + 1"
  by (simp add: analyze_paper_def Let_def record_error_def split: sum.splits reply.splits)

lemma find_citations_tool_calls: "tool_calls (find_citations rt a st s) = tool_calls s + 1"
  by (simp add: find_citations_def Let_def record_error_def split: sum.splits reply.splits)

lemma generate_review_tool_calls: "tool_calls (generate_review rt a st s) = tool_calls s + 1"
  by (simp add: generate_review_def Let_def record_error_def split: sum.splits reply.splits)

lemma node_fn_tool_calls: "tool_calls (node_fn rt orch sts n s) = tool_calls s + 1"
  by (cases n)
    (simp_all add: extract_paper_tool_calls analyze_paper_tool_calls find_citations_tool_calls
      generate_review_tool_calls)

lemma graph_step_tool_calls: "tool_calls (graph_step r f s) = tool_calls (f s)"
  by (simp add: graph_step_def Let_def)

lemma invoke_unfold:
  "invoke r rt orch sts s =
     graph_step r (node_fn rt orch sts Generate_review)
       (graph_step r (node_fn rt orch sts Find_citations)
         (graph_step r (node_fn rt orch sts Analyze)
           (graph_step r (node_fn rt orch sts Extract) s)))"
  unfolding invoke_def entry_point_def
  by (simp add: Let_def del: node_fn.simps)

lemma invoke_tool_calls: "tool_calls (invoke r rt orch sts s) = tool_calls s + 4"
  unfolding invoke_unfold
  by (simp add: graph_step_tool_calls node_fn_tool_calls del: node_fn.simps)

subsection \<open>The error list\<close>

lemma write_errors_prefix: "prefix cur upd \<Longrightarrow> prefix cur (write_errors r cur upd)"
  by (cases r) simp_all

lemma extract_paper_errors: "prefix (errors s) (errors (extract_paper rt a st s))"
  by (simp add: extract_paper_def Let_def record_error_def split: sum.splits reply.splits)

lemma analyze_paper_errors: "prefix (errors s) (errors (analyze_paper rt a st s))"
  by (simp add: analyze_paper_def Let_def record_error_def split: sum.splits reply.splits)

lemma find_citations_errors: "prefix (errors s) (errors (find_citations rt a st s))"
  by (simp add: find_citations_def Let_def record_error_def split: sum.splits reply.splits)

lemma generate_review_errors: "prefix (errors s) (errors (generate_review rt a st s))"
  by (simp add: generate_review_def Let_def record_error_def split: sum.splits reply.splits)

lemma node_fn_errors: "prefix (errors s) (errors (node_fn rt orch sts n s))"
  by (cases n)
    (simp_all add: extract_paper_errors analyze_paper_errors find_citations_errors
      generate_review_errors)

lemma graph_step_errors:
  "prefix (errors s) (errors (f s)) \<Longrightarrow> prefix (errors s) (errors (graph_step r f s))"
  by (simp add: graph_step_def Let_def write_errors_prefix)

lemma graph_node_errors:
  "prefix (errors s) (errors (graph_step r (node_fn rt orch sts n) s))"
  by (rule graph_step_errors) (rule node_fn_errors)

lemma invoke_errors: "prefix (errors s) (errors (invoke r rt orch sts s))"
  unfolding invoke_unfold
  by (blast intro: prefix_order.trans graph_node_errors)

text \<open>
  C7. Within one run the \<open>errors\<close> list is append-only. Across every stage transition (the node
  function alone, and the node followed by the graph's write of its result) and across the whole
  run, the list before is a prefix of the list after: no entry is removed or reordered, and the
  length never decreases.
\<close>

theorem errors_append_only:
  "prefix (errors s) (errors (node_fn rt orch sts n s))
   \<and> prefix (errors s) (errors (graph_step r (node_fn rt orch sts n) s))
   \<and> prefix (errors s) (errors (invoke r rt orch sts s))
   \<and> length (errors s) \<le> length (errors (graph_step r (node_fn rt orch sts n) s))
   \<and> length (errors s) \<le> length (errors (invoke r rt orch sts s))"
  using node_fn_errors [of s rt orch sts n] graph_node_errors [of s r rt orch sts n]
    invoke_errors [of s r rt orch sts]
  by (simp add: prefix_length_le del: node_fn.simps)

subsection \<open>Failure policies\<close>

lemma message_enter:
  "extract_message st (s\<lparr>stage := x, tool_calls := y\<rparr>) = extract_message st s"
  "analyze_message st (s\<lparr>stage := x, tool_calls := y\<rparr>) = analyze_message st s"
  "citations_message st (s\<lparr>stage := x, tool_calls := y\<rparr>) = citations_message st s"
  "review_message st (s\<lparr>stage := x, tool_calls := y\<rparr>) = review_message st s"
  by (simp_all add: extract_message_def analyze_message_def citations_message_def
      review_message_def request_def)

lemma extract_paper_cases:
  "extract_paper rt a st s =
     (let state = s\<lparr>stage := ''extraction'', tool_calls := tool_calls s + 1\<rparr> in
      case outcome rt a (extract_message st s) of
        Inl e \<Rightarrow> record_error (''Extraction failed: '' @ str_exn e) state
      | Inr (Failure err) \<Rightarrow> record_error (''Reader Agent error: '' @ py_str rt err) state
      | Inr (Result data) \<Rightarrow>
          (case py_get rt data ''title'' (PStr ''Unknown'') of
             Inl e \<Rightarrow> record_error (''Extraction failed: '' @ str_exn e)
                        (state\<lparr>paper_content := data\<rparr>)
           | Inr title \<Rightarrow> state\<lparr>paper_content := data\<rparr>))"
  by (simp add: extract_paper_def Let_def message_enter split: sum.splits reply.splits)

lemma analyze_paper_cases:
  "analyze_paper rt a st s =
     (let state = s\<lparr>stage := ''analysis'', tool_calls := tool_calls s + 1\<rparr> in
      case outcome rt a (analyze_message st s) of
        Inl e \<Rightarrow> record_error (''Analysis failed: '' @ str_exn e) state
      | Inr (Failure err) \<Rightarrow> record_error (''Critic Agent error: '' @ py_str rt err) state
      | Inr (Result data) \<Rightarrow>
          (case and_then (py_get rt data ''overall_score'' (PInt 0)) (format_1f rt) of
             Inl e \<Rightarrow> record_error (''Analysis failed: '' @ str_exn e)
                        (state\<lparr>critic_analysis := data\<rparr>)
           | Inr u \<Rightarrow> state\<lparr>critic_analysis := data\<rparr>))"
  by (simp add: analyze_paper_def Let_def message_enter split: sum.splits reply.splits)

lemma find_citations_cases:
  "find_citations rt a st s =
     (let state = s\<lparr>stage := ''citation_analysis'', tool_calls := tool_calls s + 1\<rparr> in
      case outcome rt a (citations_message st s) of
        Inl e \<Rightarrow> (record_error (''Citation analysis failed: '' @ str_exn e) state)
                   \<lparr>citation_data := PDict []\<rparr>
      | Inr (Failure err) \<Rightarrow> (record_error (''CiteAgent error: '' @ py_str rt err) state)
                   \<lparr>citation_data := PDict []\<rparr>
      | Inr (Result data) \<Rightarrow>
          (case and_then (py_get rt data ''related_papers'' (PList [])) (py_len rt) of
             Inl e \<Rightarrow> (record_error (''Citation analysis failed: '' @ str_exn e)
                        (state\<lparr>citation_data := data\<rparr>))\<lparr>citation_data := PDict []\<rparr>
           | Inr n \<Rightarrow> state\<lparr>citation_data := data\<rparr>))"
  by (simp add: find_citations_def Let_def message_enter split: sum.splits reply.splits)

lemma generate_review_cases:
  "generate_review rt a st s =
     (let state = s\<lparr>stage := ''review_generation'', tool_calls := tool_calls s + 1\<rparr> in
      case outcome rt a (review_message st s) of
        Inl e \<Rightarrow> record_error (''Review generation failed: '' @ str_exn e) state
      | Inr (Failure err) \<Rightarrow> record_error (''MetaReviewer error: '' @ py_str rt err) state
      | Inr (Result data) \<Rightarrow> state\<lparr>final_review := data\<rparr>)"
  by (simp add: generate_review_def Let_def message_enter)

text \<open>What each node leaves alone.\<close>

lemma extract_paper_frame:
  "paper_source (extract_paper rt a st s) = paper_source s"
  "source_type (extract_paper rt a st s) = source_type s"
  "session_id (extract_paper rt a st s) = session_id s"
  "critic_analysis (extract_paper rt a st s) = critic_analysis s"
  "citation_data (extract_paper rt a st s) = citation_data s"
  "final_review (extract_paper rt a st s) = final_review s"
  by (simp_all add: extract_paper_cases Let_def record_error_def split: sum.splits reply.splits)

lemma analyze_paper_frame:
  "session_id (analyze_paper rt a st s) = session_id s"
  "paper_content (analyze_paper rt a st s) = paper_content s"
  "citation_data (analyze_paper rt a st s) = citation_data s"
  "final_review (analyze_paper rt a st s) = final_review s"
  by (simp_all add: analyze_paper_cases Let_def record_error_def split: sum.splits reply.splits)

lemma find_citations_frame:
  "session_id (find_citations rt a st s) = session_id s"
  "paper_content (find_citations rt a st s) = paper_content s"
  "critic_analysis (find_citations rt a st s) = critic_analysis s"
  "final_review (find_citations rt a st s) = final_review s"
  by (simp_all add: find_citations_cases Let_def record_error_def split: sum.splits reply.splits)

lemma generate_review_frame:
  "session_id (generate_review rt a st s) = session_id s"
  "paper_content (generate_review rt a st s) = paper_content s"
  "critic_analysis (generate_review rt a st s) = critic_analysis s"
  "citation_data (generate_review rt a st s) = citation_data s"
  by (simp_all add: generate_review_cases Let_def record_error_def split: sum.splits reply.splits)

lemma graph_step_fields:
  "paper_source (graph_step r f s) = paper_source (f s)"
  "source_type (graph_step r f s) = source_type (f s)"
  "session_id (graph_step r f s) = session_id (f s)"
  "paper_content (graph_step r f s) = paper_content (f s)"
  "critic_analysis (graph_step r f s) = critic_analysis (f s)"
  "citation_data (graph_step r f s) = citation_data (f s)"
  "final_review (graph_step r f s) = final_review (f s)"
  "stage (graph_step r f s) = stage (f s)"
  by (simp_all add: graph_step_def Let_def)

text \<open>The requests read only the outputs of earlier stages and the session identifier.\<close>

lemma analyze_message_cong:
  "paper_content s = paper_content s' \<Longrightarrow> session_id s = session_id s' \<Longrightarrow>
     analyze_message st s = analyze_message st s'"
  by (simp add: analyze_message_def request_def)

lemma citations_message_cong:
  "paper_content s = paper_content s' \<Longrightarrow> session_id s = session_id s' \<Longrightarrow>
     citations_message st s = citations_message st s'"
  by (simp add: citations_message_def request_def)

lemma review_message_cong:
  "paper_content s = paper_content s' \<Longrightarrow> critic_analysis s = critic_analysis s' \<Longrightarrow>
   citation_data s = citation_data s' \<Longrightarrow> session_id s = session_id s' \<Longrightarrow>
     review_message st s = review_message st s'"
  by (simp add: review_message_def request_def)

text \<open>What a node stores when its adapter answers, and what it records when it does not.\<close>

lemma extract_paper_result:
  "outcome rt a (extract_message st s) = Inr (Result d) \<Longrightarrow>
     paper_content (extract_paper rt a st s) = d"
  by (simp add: extract_paper_cases Let_def record_error_def split: sum.splits)

lemma analyze_paper_result:
  "outcome rt a (analyze_message st s) = Inr (Result d) \<Longrightarrow>
     critic_analysis (analyze_paper rt a st s) = d"
  by (simp add: analyze_paper_cases Let_def record_error_def split: sum.splits)

lemma generate_review_result:
  "outcome rt a (review_message st s) = Inr (Result d) \<Longrightarrow>
     final_review (generate_review rt a st s) = d"
  by (simp add: generate_review_cases Let_def record_error_def split: sum.splits)


lemma find_citations_raised:
  "outcome rt a (citations_message st s) = Inl e \<Longrightarrow>
     find_citations rt a st s =
       s\<lparr>stage := ''citation_analysis'', tool_calls := tool_calls s + 1,
         errors := errors s @ [''Citation analysis failed: '' @ str_exn e],
         citation_data := PDict []\<rparr>"
  by (simp add: find_citations_cases Let_def record_error_def)

lemma find_citations_failed:
  "outcome rt a (citations_message st s) = Inr (Failure err) \<Longrightarrow>
     find_citations rt a st s =
       s\<lparr>stage := ''citation_analysis'', tool_calls := tool_calls s + 1,
         errors := errors s @ [''CiteAgent error: '' @ py_str rt err],
         citation_data := PDict []\<rparr>"
  by (simp add: find_citations_cases Let_def record_error_def)

lemma write_errors_last: "x \<in> set (write_errors r cur (cur @ [x]))"
  by (cases r) simp_all

lemma transition_keeps_error:
  "x \<in> set (errors s) \<Longrightarrow> x \<in> set (errors (transition r rt orch sts n s))"
  using graph_node_errors [of s r rt orch sts n] set_mono_prefix by blast

lemma graph_step_errors_eq:
  "errors (graph_step r f s) = write_errors r (errors s) (errors (f s))"
  by (simp add: graph_step_def Let_def)

text \<open>What a run holds at its end when only the citation stage fails.\<close>

lemma citation_failure_run:
  assumes reader: "outcome rt (reader_agent orch) (extract_message (extract_stamp sts) s0)
      = Inr (Result d1)"
    and critic: "outcome rt (critic_agent orch)
      (analyze_message (analyze_stamp sts) (s0\<lparr>paper_content := d1\<rparr>)) = Inr (Result d2)"
    and cite: "outcome rt (cite_agent orch)
      (citations_message (citations_stamp sts) (s0\<lparr>paper_content := d1\<rparr>)) = failure"
    and failure: "failure = Inl e \<or> failure = Inr (Failure err)"
    and meta: "outcome rt (meta_reviewer_agent orch)
      (review_message (review_stamp sts)
        (s0\<lparr>paper_content := d1, critic_analysis := d2, citation_data := PDict []\<rparr>))
      = Inr (Result d4)"
  shows "paper_content (invoke r rt orch sts s0) = d1
       \<and> critic_analysis (invoke r rt orch sts s0) = d2
       \<and> citation_data (invoke r rt orch sts s0) = PDict []
       \<and> final_review (invoke r rt orch sts s0) = d4
       \<and> (failure = Inl e \<longrightarrow>
            ''Citation analysis failed: '' @ str_exn e \<in> set (errors (invoke r rt orch sts s0)))
       \<and> (failure = Inr (Failure err) \<longrightarrow>
            ''CiteAgent error: '' @ py_str rt err \<in> set (errors (invoke r rt orch sts s0)))"
proof -
  define s1 where "s1 = transition r rt orch sts Extract s0"
  define s2 where "s2 = transition r rt orch sts Analyze s1"
  define s3 where "s3 = transition r rt orch sts Find_citations s2"
  define s4 where "s4 = transition r rt orch sts Generate_review s3"
  have run: "invoke r rt orch sts s0 = s4"
    by (simp only: invoke_unfold s1_def s2_def s3_def s4_def)
  have "paper_content (extract_paper rt (reader_agent orch) (extract_stamp sts) s0) = d1"
    using reader by (rule extract_paper_result)
  then have s1: "paper_content s1 = d1" "session_id s1 = session_id s0"
    by (simp_all add: s1_def graph_step_fields extract_paper_frame)
  have "analyze_message (analyze_stamp sts) s1
      = analyze_message (analyze_stamp sts) (s0\<lparr>paper_content := d1\<rparr>)"
    by (rule analyze_message_cong) (simp_all add: s1)
  with critic have critic': "outcome rt (critic_agent orch) (analyze_message (analyze_stamp sts) s1)
      = Inr (Result d2)"
    by simp
  have "critic_analysis (analyze_paper rt (critic_agent orch) (analyze_stamp sts) s1) = d2"
    using critic' by (rule analyze_paper_result)
  then have s2: "paper_content s2 = d1" "critic_analysis s2 = d2" "session_id s2 = session_id s0"
    by (simp_all add: s2_def graph_step_fields analyze_paper_frame s1)
  have "citations_message (citations_stamp sts) s2
      = citations_message (citations_stamp sts) (s0\<lparr>paper_content := d1\<rparr>)"
    by (rule citations_message_cong) (simp_all add: s2)
  with cite have cite': "outcome rt (cite_agent orch) (citations_message (citations_stamp sts) s2)
      = failure"
    by simp
  have s3: "paper_content s3 = d1" "critic_analysis s3 = d2" "session_id s3 = session_id s0"
    by (simp_all add: s3_def graph_step_fields find_citations_frame s2)
  have raised: "find_citations rt (cite_agent orch) (citations_stamp sts) s2 =
      s2\<lparr>stage := ''citation_analysis'', tool_calls := tool_calls s2 + 1,
        errors := errors s2 @ [''Citation analysis failed: '' @ str_exn e],
        citation_data := PDict []\<rparr>" if "failure = Inl e"
    using cite' that by (intro find_citations_raised) simp
  have failed: "find_citations rt (cite_agent orch) (citations_stamp sts) s2 =
      s2\<lparr>stage := ''citation_analysis'', tool_calls := tool_calls s2 + 1,
        errors := errors s2 @ [''CiteAgent error: '' @ py_str rt err],
        citation_data := PDict []\<rparr>" if "failure = Inr (Failure err)"
    using cite' that by (intro find_citations_failed) simp
  have cd3: "citation_data s3 = PDict []"
    using failure raised failed by (auto simp: s3_def graph_step_fields)
  have e3: "''Citation analysis failed: '' @ str_exn e \<in> set (errors s3)" if "failure = Inl e"
    by (simp add: s3_def graph_step_errors_eq raised [OF that] write_errors_last)
  have f3: "''CiteAgent error: '' @ py_str rt err \<in> set (errors s3)"
    if "failure = Inr (Failure err)"
    by (simp add: s3_def graph_step_errors_eq failed [OF that] write_errors_last)
  have "review_message (review_stamp sts) s3
      = review_message (review_stamp sts)
          (s0\<lparr>paper_content := d1, critic_analysis := d2, citation_data := PDict []\<rparr>)"
    by (rule review_message_cong) (simp_all add: s3 cd3)
  with meta have meta': "outcome rt (meta_reviewer_agent orch)
      (review_message (review_stamp sts) s3) = Inr (Result d4)"
    by simp
  have "final_review (generate_review rt (meta_reviewer_agent orch) (review_stamp sts) s3) = d4"
    using meta' by (rule generate_review_result)
  then have s4: "paper_content s4 = d1" "critic_analysis s4 = d2" "citation_data s4 = PDict []"
      "final_review s4 = d4"
    by (simp_all add: s4_def graph_step_fields generate_review_frame s3 cd3)
  have e4: "''Citation analysis failed: '' @ str_exn e \<in> set (errors s4)" if "failure = Inl e"
    unfolding s4_def by (rule transition_keeps_error) (rule e3 [OF that])
  have f4: "''CiteAgent error: '' @ py_str rt err \<in> set (errors s4)"
    if "failure = Inr (Failure err)"
    unfolding s4_def by (rule transition_keeps_error) (rule f3 [OF that])
  show ?thesis
    unfolding run using s4 e4 f4 by blast
qed


lemmas evaluation =
  sample_orchestrator_def sample_runtime_def sample_io_def sample_stamp_def sample_stamps_def
  sample_clock_def initial_state_def
  reader_process_message_def critic_process_message_def cite_process_message_def
  meta_process_message_def reader_extract_paper_def response_envelope_def error_envelope_def
  unknown_action_def msg_action_def msg_data_def msg_context_def
  extract_message_def analyze_message_def citations_message_def review_message_def request_def
  read_response_def and_then_def dict_item_def dict_get_def

text \<open>What a hard stage records when its adapter answers with an error envelope.\<close>

lemma extract_failed:
  "outcome rt (reader_agent orch) (extract_message (extract_stamp sts) s) = Inr (Failure err) \<Longrightarrow>
     transition r rt orch sts Extract s =
       s\<lparr>stage := ''extraction'', tool_calls := tool_calls s + 1,
         errors := write_errors r (errors s) (errors s @ [''Reader Agent error: '' @ py_str rt err])\<rparr>"
  by (simp add: graph_step_def extract_paper_cases Let_def record_error_def)

lemma analyze_failed:
  "outcome rt (critic_agent orch) (analyze_message (analyze_stamp sts) s) = Inr (Failure err) \<Longrightarrow>
     transition r rt orch sts Analyze s =
       s\<lparr>stage := ''analysis'', tool_calls := tool_calls s + 1,
         errors := write_errors r (errors s) (errors s @ [''Critic Agent error: '' @ py_str rt err])\<rparr>"
  by (simp add: graph_step_def analyze_paper_cases Let_def record_error_def)

lemma review_failed:
  "outcome rt (meta_reviewer_agent orch) (review_message (review_stamp sts) s)
      = Inr (Failure err) \<Longrightarrow>
     transition r rt orch sts Generate_review s =
       s\<lparr>stage := ''review_generation'', tool_calls := tool_calls s + 1,
         errors := write_errors r (errors s) (errors s @ [''MetaReviewer error: '' @ py_str rt err])\<rparr>"
  by (simp add: graph_step_def generate_review_cases Let_def record_error_def)

lemma invoke_stage: "stage (invoke r rt orch sts s) = ''review_generation''"
  unfolding invoke_unfold
  by (simp add: graph_step_fields generate_review_cases Let_def record_error_def
      split: sum.splits reply.splits)

section \<open>Properties of the checkpoint store\<close>

text \<open>
  C9. Saving a state under a run identifier and loading that identifier gives back the state
  saved, and a later save under the same identifier replaces the earlier snapshot.
\<close>

theorem checkpoint_round_trip:
  "load run_id (save run_id state store) = Some state
   \<and> save run_id state' (save run_id state store) = save run_id state' store
   \<and> load run_id (save run_id state' (save run_id state store)) = Some state'"
  by (simp add: load_def save_def)

section \<open>Properties of the reader's heuristics\<close>

lemma section_of_content: "length (content (section_of ops pat text m)) \<le> 1000"
  by (simp add: section_of_def Let_def)

lemma extract_sections_content:
  "sec \<in> set (extract_sections ops text) \<Longrightarrow> length (content sec) \<le> 1000"
proof -
  assume "sec \<in> set (extract_sections ops text)"
  then have "sec \<in> set (concat (map (\<lambda>pat. map (section_of ops pat text)
      (re_finditer ops pat text)) section_patterns))"
    unfolding extract_sections_def by (rule in_set_takeD)
  then obtain pat m where "sec = section_of ops pat text m"
    by auto
  then show ?thesis
    by (simp add: section_of_content)
qed

text \<open>
  C10. Whatever the text and whatever the regular expressions match, the reader returns at most
  10 authors, at most 15 sections, each with a content of at most 1000 characters, and at most
  50 references.
\<close>

theorem extraction_is_bounded:
  "length (extract_authors ops text) \<le> 10
   \<and> length (extract_sections ops text) \<le> 15
   \<and> (\<forall>sec \<in> set (extract_sections ops text). length (content sec) \<le> 1000)
   \<and> length (extract_references ops text) \<le> 50"
  by (simp add: extract_authors_def extract_sections_def extract_references_def Let_def
      extract_sections_content)

theorem extraction_is_bounded_witness:
  "extract_sections sample_ops sample_text \<noteq> []
   \<and> length (content (hd (extract_sections sample_ops sample_text))) \<le> 1000
   \<and> length (extract_authors sample_ops sample_text) \<le> 10
   \<and> length (extract_references sample_ops sample_text) \<le> 50"
proof -
  have ne: "extract_sections sample_ops sample_text \<noteq> []"
    by (simp add: extract_sections_def section_patterns_def sample_ops_def)
  then have "hd (extract_sections sample_ops sample_text)
      \<in> set (extract_sections sample_ops sample_text)"
    by simp
  with ne extraction_is_bounded [of sample_ops sample_text] show ?thesis
    by blast
qed

end
